theory Spec2Isabelle
  imports Complex_Main
begin

section \<open>Values, exceptions and handlers\<close>

text \<open>
  The alias \<^verbatim>\<open>JSON\<close> of \<^verbatim>\<open>ipc.py\<close>: \<^verbatim>\<open>None\<close>, a string, a number, a boolean, a list or a
  dict with string keys. Python's \<^verbatim>\<open>None\<close> is \<open>JNull\<close>; a dict is the list of its items.
\<close>

datatype json =
    JNull
  | JBool bool
  | JNum real
  | JStr string
  | JList "json list"
  | JObj "(string \<times> json) list"

text \<open>Python's truth value of a JSON value, as tested by \<^verbatim>\<open>if x:\<close>.\<close>

fun truthy :: "json \<Rightarrow> bool" where
  "truthy JNull = False"
| "truthy (JBool b) = b"
| "truthy (JNum n) = (n \<noteq> 0)"
| "truthy (JStr s) = (s \<noteq> [])"
| "truthy (JList xs) = (xs \<noteq> [])"
| "truthy (JObj kvs) = (kvs \<noteq> [])"

text \<open>\<^verbatim>\<open>if x:\<close> on an \<^verbatim>\<open>Optional[str]\<close> argument.\<close>

fun truthy_str :: "string option \<Rightarrow> bool" where
  "truthy_str None = False"
| "truthy_str (Some s) = (s \<noteq> [])"

text \<open>\<^verbatim>\<open>d.get(k)\<close> on a decoded dict: the value, or \<^verbatim>\<open>None\<close> when the key is missing.\<close>

definition dict_get :: "(string \<times> json) list \<Rightarrow> string \<Rightarrow> json" where
  "dict_get d k = (case map_of d k of None \<Rightarrow> JNull | Some v \<Rightarrow> v)"

text \<open>The exceptions that the modelled code raises or lets through.\<close>

datatype exn =
    RuntimeError
  | KeyError string
  | TypeError
  | AttributeError
  | JSONDecodeError
  | TimeoutError
  | CancelledError
  | ConnectionError
  | SubscribeError
  | HandlerError string

text \<open>
  A handler is an asynchronous callable. What a call does is its outcome: a returned value
  or a raised exception (\<open>Raises CancelledError\<close> is a cancelled invocation). A callable
  has a signature, and Python raises \<^verbatim>\<open>TypeError\<close> when the call does not fit it.
\<close>

datatype outcome = Returns json | Raises exn

datatype handler =
    ZeroArg outcome
  | OneArg "json \<Rightarrow> outcome"
  | OptArg "json option \<Rightarrow> outcome"

text \<open>\<^verbatim>\<open>await handler()\<close> and \<^verbatim>\<open>await handler(message)\<close>.\<close>

fun call0 :: "handler \<Rightarrow> outcome" where
  "call0 (ZeroArg r) = r"
| "call0 (OneArg f) = Raises TypeError"
| "call0 (OptArg f) = f None"

fun call1 :: "handler \<Rightarrow> json \<Rightarrow> outcome" where
  "call1 (ZeroArg r) x = Raises TypeError"
| "call1 (OneArg f) x = f x"
| "call1 (OptArg f) x = f (Some x)"

section \<open>Routers\<close>

text \<open>
  An \<^verbatim>\<open>IPCRouter\<close>: \<open>attrs\<close> is \<^verbatim>\<open>dir(router)\<close> in its order, each name with the value
  \<^verbatim>\<open>getattr\<close> gives; \<open>resource\<close> is the state owned by the router, on which the two hooks
  act. The hooks of the base class do nothing (\<^verbatim>\<open>pass\<close>); a subclass overrides them.
\<close>

record router =
  attrs :: "(string \<times> handler) list"
  resource :: json
  router_load :: "json \<Rightarrow> json"
  router_unload :: "json \<Rightarrow> json"

definition IPCRouter :: "(string \<times> handler) list \<Rightarrow> json \<Rightarrow> router" where
  "IPCRouter ms r = \<lparr>attrs = ms, resource = r, router_load = (\<lambda>x. x), router_unload = (\<lambda>x. x)\<rparr>"

section \<open>Strings\<close>

text \<open>\<^verbatim>\<open>s.startswith(p)\<close>.\<close>

fun startswith :: "string \<Rightarrow> string \<Rightarrow> bool" where
  "startswith s [] = True"
| "startswith [] (p # ps) = False"
| "startswith (c # cs) (p # ps) = (c = p \<and> startswith cs ps)"

text \<open>
  \<^verbatim>\<open>s.replace(old, new)\<close>: every occurrence of \<open>old\<close>, found from the left and without
  overlap, becomes \<open>new\<close>. For an empty \<open>old\<close> Python puts \<open>new\<close> before every character and
  at the end.
\<close>

function replace :: "string \<Rightarrow> string \<Rightarrow> string \<Rightarrow> string" where
  "replace s [] new = new @ concat (map (\<lambda>c. c # new) s)"
| "replace [] (p # ps) new = []"
| "replace (c # cs) (p # ps) new =
     (if startswith (c # cs) (p # ps)
      then new @ replace (drop (length ps) cs) (p # ps) new
      else c # replace cs (p # ps) new)"
  by pat_completeness auto
termination
  by (relation "measure (\<lambda>(s, old, new). length s)") auto

text \<open>\<^verbatim>\<open>sub in s\<close> for two strings.\<close>

fun str_contains :: "string \<Rightarrow> string \<Rightarrow> bool" where
  "str_contains [] sub = (sub = [])"
| "str_contains (c # cs) sub = (startswith (c # cs) sub \<or> str_contains cs sub)"

section \<open>The IPC object and its environment\<close>

text \<open>A future of the event loop: pending, holding a result, or cancelled.\<close>

datatype future = Pending | Done json | CancelledF

text \<open>A task made by \<^verbatim>\<open>asyncio.create_task\<close>: the arguments of \<^verbatim>\<open>_run_handler\<close> and the name.\<close>

record task =
  t_handler :: handler
  t_nonce :: json
  t_message :: json
  t_name :: string

text \<open>
  The attributes of an \<^verbatim>\<open>IPC\<close> instance, then what it runs against.
  \<open>channel\<close> is \<open>None\<close> until \<^verbatim>\<open>ensure_channel\<close> sets it, then the list of the channels the
  pubsub object is subscribed to. \<open>nonces\<close> holds references to futures, which live in
  \<open>futures\<close> (the objects made by \<^verbatim>\<open>loop.create_future\<close>). \<open>sent\<close> is what
  \<^verbatim>\<open>redis.publish\<close> has accepted: the channel and the value given to \<^verbatim>\<open>json.dumps\<close>.
  \<open>redis_up\<close> says whether the connection works; a call on a broken connection raises.
  \<open>urandom\<close> is the sequence of hexadecimal tokens \<^verbatim>\<open>os.urandom(16).hex()\<close> yields and
  \<open>drawn\<close> counts the draws made.
\<close>

record ipc =
  identity :: string
  channel_address :: string
  channel :: "string list option"
  handlers :: "string \<rightharpoonup> handler"
  nonces :: "string \<rightharpoonup> nat"
  routers :: "router list"
  error_handler :: "(exn \<Rightarrow> json \<Rightarrow> exn option) option"
  futures :: "nat \<rightharpoonup> future"
  next_future :: nat
  tasks :: "task list"
  sent :: "(string \<times> json) list"
  redis_up :: bool
  urandom :: "nat \<Rightarrow> string"
  drawn :: nat

definition random_hex :: "ipc \<Rightarrow> string \<times> ipc" where
  "random_hex st = (urandom st (drawn st), st\<lparr>drawn := Suc (drawn st)\<rparr>)"

definition create_future :: "ipc \<Rightarrow> nat \<times> ipc" where
  "create_future st =
     (next_future st,
      st\<lparr>futures := (futures st)(next_future st \<mapsto> Pending),
         next_future := Suc (next_future st)\<rparr>)"

text \<open>\<^verbatim>\<open>await self.redis.publish(channel, json.dumps(payload))\<close>.\<close>

definition redis_publish :: "ipc \<Rightarrow> string \<Rightarrow> json \<Rightarrow> exn option \<times> ipc" where
  "redis_publish st chan payload =
     (if redis_up st then (None, st\<lparr>sent := sent st @ [(chan, payload)]\<rparr>)
      else (Some ConnectionError, st))"

section \<open>The handler registry\<close>

text \<open>
  The scan shared by \<^verbatim>\<open>__init__\<close> and \<^verbatim>\<open>add_router\<close>: every attribute whose name starts with
  \<^verbatim>\<open>handle_\<close> is stored under \<^verbatim>\<open>method.replace("handle_", "")\<close>, in the order of \<^verbatim>\<open>dir\<close>;
  a later store under the same key overwrites.
\<close>

fun copy_handlers :: "(string \<times> handler) list \<Rightarrow> (string \<rightharpoonup> handler) \<Rightarrow> (string \<rightharpoonup> handler)" where
  "copy_handlers [] hs = hs"
| "copy_handlers ((method, f) # rest) hs =
     copy_handlers rest
       (if startswith method ''handle_'' then hs(replace method ''handle_'' [] \<mapsto> f) else hs)"

text \<open>
  \<^verbatim>\<open>IPC.__init__\<close>. \<open>own\<close> is \<^verbatim>\<open>dir(self)\<close> with its values; \<open>rnd\<close>, \<open>up\<close> are the
  environment the instance starts in.
\<close>

definition IPC_init ::
  "string \<Rightarrow> string option \<Rightarrow> (exn \<Rightarrow> json \<Rightarrow> exn option) option \<Rightarrow> (string \<times> handler) list
     \<Rightarrow> (nat \<Rightarrow> string) \<Rightarrow> bool \<Rightarrow> ipc" where
  "IPC_init chan ident eh own rnd up =
     \<lparr>identity = (if truthy_str ident then (case ident of Some i \<Rightarrow> i | None \<Rightarrow> []) else rnd 0),
      channel_address = chan,
      channel = None,
      handlers = copy_handlers own Map.empty,
      nonces = Map.empty,
      routers = [],
      error_handler = eh,
      futures = Map.empty,
      next_future = 0,
      tasks = [],
      sent = [],
      redis_up = up,
      urandom = rnd,
      drawn = (if truthy_str ident then 0 else 1)\<rparr>"

definition add_router :: "ipc \<Rightarrow> router \<Rightarrow> ipc" where
  "add_router st r =
     (let st1 = st\<lparr>routers := routers st @ [r]\<rparr>
      in st1\<lparr>handlers := copy_handlers (attrs r) (handlers st1)\<rparr>)"

definition add_handler :: "ipc \<Rightarrow> string \<Rightarrow> handler \<Rightarrow> ipc" where
  "add_handler st name func = st\<lparr>handlers := (handlers st)(name \<mapsto> func)\<rparr>"

text \<open>\<^verbatim>\<open>del self.handlers[name]\<close> raises \<^verbatim>\<open>KeyError\<close> when the key is missing.\<close>

definition remove_handler :: "ipc \<Rightarrow> string \<Rightarrow> exn option \<times> ipc" where
  "remove_handler st name =
     (case handlers st name of
        None \<Rightarrow> (Some (KeyError name), st)
      | Some f \<Rightarrow> (None, st\<lparr>handlers := (handlers st)(name := None)\<rparr>))"

section \<open>Publishing and calling\<close>

definition publish ::
  "ipc \<Rightarrow> string \<Rightarrow> string option \<Rightarrow> string option \<Rightarrow> (string \<times> json) list \<Rightarrow> exn option \<times> ipc" where
  "publish st op required_identity nonce data =
     (let message = [(''op'', JStr op), (''data'', JObj data), (''sender'', JStr (identity st))];
          message = (case nonce of
                       Some n \<Rightarrow> if n \<noteq> [] then message @ [(''nonce'', JStr n)] else message
                     | None \<Rightarrow> message);
          message = (case required_identity of
                       Some i \<Rightarrow> if i \<noteq> [] then message @ [(''required_identity'', JStr i)] else message
                     | None \<Rightarrow> message)
      in redis_publish st (channel_address st) (JObj message))"

text \<open>
  \<^verbatim>\<open>asyncio.wait_for(future, timeout)\<close> when the caller runs again: a future that holds a
  result gives it; a cancelled one raises \<^verbatim>\<open>CancelledError\<close>; a pending one is cancelled and
  the call raises according to what ended the wait, the timer or the cancellation of the
  calling task.
\<close>

datatype interrupt = TimerFired | TaskCancelled

definition wait_for :: "ipc \<Rightarrow> nat \<Rightarrow> interrupt \<Rightarrow> (exn + json) \<times> ipc" where
  "wait_for st fut intr =
     (case futures st fut of
        Some (Done v) \<Rightarrow> (Inr v, st)
      | Some CancelledF \<Rightarrow> (Inl CancelledError, st)
      | _ \<Rightarrow> (Inl (case intr of TimerFired \<Rightarrow> TimeoutError | TaskCancelled \<Rightarrow> CancelledError),
              st\<lparr>futures := (futures st)(fut \<mapsto> CancelledF)\<rparr>))"

text \<open>The \<^verbatim>\<open>finally\<close> clause of \<^verbatim>\<open>get\<close>: \<^verbatim>\<open>del self.nonces[nonce]\<close>, then the pending outcome.\<close>

definition finally_del :: "ipc \<Rightarrow> string \<Rightarrow> exn + json \<Rightarrow> (exn + json) \<times> ipc" where
  "finally_del st nonce r =
     (case nonces st nonce of
        None \<Rightarrow> (Inl (KeyError nonce), st)
      | Some f \<Rightarrow> (r, st\<lparr>nonces := (nonces st)(nonce := None)\<rparr>))"

text \<open>
  \<^verbatim>\<open>IPC.get\<close>. The coroutine is suspended while it waits; \<open>others\<close> is what the other tasks
  of the loop do to the state in the meantime, \<open>intr\<close> what ends the wait when no reply has
  resolved the future (the \<^verbatim>\<open>timeout\<close> argument sets when the timer fires).
\<close>

definition get ::
  "ipc \<Rightarrow> string \<Rightarrow> string option \<Rightarrow> (string \<times> json) list \<Rightarrow> (ipc \<Rightarrow> ipc) \<Rightarrow> interrupt
     \<Rightarrow> (exn + json) \<times> ipc" where
  "get st op required_identity data others intr =
     (if channel st = None then (Inl RuntimeError, st)
      else
        let (nonce, st1) = random_hex st;
            (fut, st2) = create_future st1;
            st3 = st2\<lparr>nonces := (nonces st2)(nonce \<mapsto> fut)\<rparr>;
            (r, st4) = (case publish st3 op required_identity (Some nonce) data of
                          (Some e, s) \<Rightarrow> (Inl e, s)
                        | (None, s) \<Rightarrow> wait_for (others s) fut intr)
        in finally_del st4 nonce r)"

section \<open>Running a handler\<close>

text \<open>The \<^verbatim>\<open>except\<close> clauses of \<^verbatim>\<open>_run_handler\<close>.\<close>

definition on_exception :: "ipc \<Rightarrow> exn \<Rightarrow> json \<Rightarrow> exn option \<times> ipc" where
  "on_exception st e message =
     (if e = CancelledError then (None, st)
      else case error_handler st of
             Some eh \<Rightarrow> (eh e message, st)
           | None \<Rightarrow> (Some e, st))"

text \<open>Lines 171 to 174: the call is chosen by the truth value of \<open>message\<close>.\<close>

definition invoke :: "handler \<Rightarrow> json \<Rightarrow> outcome" where
  "invoke h message = (if truthy message then call1 h message else call0 h)"

definition run_handler :: "ipc \<Rightarrow> handler \<Rightarrow> json \<Rightarrow> json \<Rightarrow> exn option \<times> ipc" where
  "run_handler st h nonce message =
     (case invoke h message of
        Raises e \<Rightarrow> on_exception st e message
      | Returns resp \<Rightarrow>
          if truthy resp \<and> truthy nonce then
            (case redis_publish st (channel_address st)
                    (JObj [(''nonce'', nonce), (''sender'', JStr (identity st)), (''data'', resp)]) of
               (Some e, s) \<Rightarrow> on_exception s e message
             | (None, s) \<Rightarrow> (None, s))
          else (None, st))"

definition run_task :: "ipc \<Rightarrow> task \<Rightarrow> exn option \<times> ipc" where
  "run_task st t = run_handler st (t_handler t) (t_nonce t) (t_message t)"

section \<open>The dispatch loop\<close>

text \<open>A message delivered by \<^verbatim>\<open>channel.listen()\<close>: its \<^verbatim>\<open>type\<close> and its \<^verbatim>\<open>data\<close>.\<close>

record pubsub_msg =
  mtype :: string
  mdata :: string

definition ensure_channel :: "ipc \<Rightarrow> exn option \<times> ipc" where
  "ensure_channel st =
     (case channel st of
        Some subs \<Rightarrow> (None, st)
      | None \<Rightarrow>
          if redis_up st then (None, st\<lparr>channel := Some [channel_address st]\<rparr>)
          else (Some ConnectionError, st\<lparr>channel := Some []\<rparr>))"

text \<open>\<^verbatim>\<open>await self.channel.unsubscribe(self.channel_address)\<close> under \<^verbatim>\<open>if self.channel:\<close>.\<close>

definition unsubscribe :: "ipc \<Rightarrow> exn option \<times> ipc" where
  "unsubscribe st =
     (case channel st of
        None \<Rightarrow> (None, st)
      | Some subs \<Rightarrow>
          if redis_up st then (None, st\<lparr>channel := Some (removeAll (channel_address st) subs)\<rparr>)
          else (Some ConnectionError, st))"

text \<open>
  \<^verbatim>\<open>key in d\<close> and \<^verbatim>\<open>d.get(key)\<close> for a dict \<open>d\<close> with string keys and a decoded value as
  the key: a list or a dict is not hashable (\<^verbatim>\<open>TypeError\<close>), and no other value than a
  string equals a string key.
\<close>

fun lookup_key :: "(string \<rightharpoonup> 'a) \<Rightarrow> json \<Rightarrow> exn + 'a option" where
  "lookup_key d (JStr k) = Inr (d k)"
| "lookup_key d (JList xs) = Inl TypeError"
| "lookup_key d (JObj kvs) = Inl TypeError"
| "lookup_key d v = Inr None"

text \<open>
  Lines 213 to 216: \<^verbatim>\<open>future.set_result(data)\<close> on the future found under the nonce, when it
  is not done; then \<^verbatim>\<open>continue\<close>.
\<close>

definition resolve_reply :: "ipc \<Rightarrow> nat \<Rightarrow> json \<Rightarrow> ipc" where
  "resolve_reply st fut data =
     (if futures st fut = Some Pending then st\<lparr>futures := (futures st)(fut \<mapsto> Done data)\<rparr>
      else st)"

text \<open>Lines 218 to 223: the handler lookup, the identity filter and the spawned task.\<close>

definition dispatch_request :: "ipc \<Rightarrow> json \<Rightarrow> json \<Rightarrow> json \<Rightarrow> json \<Rightarrow> exn option \<times> ipc" where
  "dispatch_request st op nonce data required_identity =
     (case lookup_key (handlers st) op of
        Inl e \<Rightarrow> (Some e, st)
      | Inr None \<Rightarrow> (None, st)
      | Inr (Some h) \<Rightarrow>
          if truthy required_identity \<and> JStr (identity st) \<noteq> required_identity then (None, st)
          else (None, st\<lparr>tasks := tasks st @
                  [\<lparr>t_handler = h, t_nonce = nonce, t_message = data,
                    t_name = ''redis-ipc: '' @ (case op of JStr name \<Rightarrow> name | _ \<Rightarrow> [])\<rparr>]\<rparr>))"

text \<open>
  The body of the \<^verbatim>\<open>async for\<close> of \<^verbatim>\<open>listen_ipc\<close> for one message. \<open>loads\<close> is \<^verbatim>\<open>json.loads\<close>:
  \<open>None\<close> when it raises \<^verbatim>\<open>JSONDecodeError\<close>. A decoded value that is not a dict has no
  \<^verbatim>\<open>get\<close>. The condition of line 212 is evaluated from the left, so \<^verbatim>\<open>nonce in self.nonces\<close>
  is only reached when the three tests before it hold. The result is the exception that
  leaves the body, if any, and the state.
\<close>

definition on_message :: "(string \<Rightarrow> json option) \<Rightarrow> ipc \<Rightarrow> pubsub_msg \<Rightarrow> exn option \<times> ipc" where
  "on_message loads st msg =
     (if mtype msg \<noteq> ''message'' then (None, st)
      else case loads (mdata msg) of
        None \<Rightarrow> (Some JSONDecodeError, st)
      | Some (JObj message) \<Rightarrow>
          (let op = dict_get message ''op'';
               nonce = dict_get message ''nonce'';
               sender = dict_get message ''sender'';
               data = dict_get message ''data'';
               required_identity = dict_get message ''required_identity''
           in if op = JNull \<and> sender \<noteq> JStr (identity st) \<and> nonce \<noteq> JNull
              then (case lookup_key (nonces st) nonce of
                      Inl e \<Rightarrow> (Some e, st)
                    | Inr (Some fut) \<Rightarrow> (None, resolve_reply st fut data)
                    | Inr None \<Rightarrow> dispatch_request st op nonce data required_identity)
              else dispatch_request st op nonce data required_identity)
      | Some other \<Rightarrow> (Some AttributeError, st))"

text \<open>What the iteration over \<^verbatim>\<open>channel.listen()\<close> yields: a message, or the cancellation of the task.\<close>

datatype event = Message pubsub_msg | Cancel

fun listen_loop :: "(string \<Rightarrow> json option) \<Rightarrow> ipc \<Rightarrow> event list \<Rightarrow> exn option \<times> ipc" where
  "listen_loop loads st [] = (None, st)"
| "listen_loop loads st (Cancel # rest) = unsubscribe st"
| "listen_loop loads st (Message msg # rest) =
     (case on_message loads st msg of
        (Some e, s) \<Rightarrow> (Some e, s)
      | (None, s) \<Rightarrow> listen_loop loads s rest)"

definition listen_ipc :: "(string \<Rightarrow> json option) \<Rightarrow> ipc \<Rightarrow> event list \<Rightarrow> exn option \<times> ipc" where
  "listen_ipc loads st evs =
     (case ensure_channel st of
        (Some e, s) \<Rightarrow> (Some e, s)
      | (None, s) \<Rightarrow>
          if channel s = None then (Some SubscribeError, s)
          else listen_loop loads s evs)"

definition start :: "(string \<Rightarrow> json option) \<Rightarrow> ipc \<Rightarrow> event list \<Rightarrow> exn option \<times> ipc" where
  "start loads st evs = listen_ipc loads st evs"

definition close :: "ipc \<Rightarrow> exn option \<times> ipc" where
  "close st = unsubscribe st"

section \<open>Example instances\<close>

text \<open>
  An instance with identity \<open>a\<close> whose class defines \<^verbatim>\<open>handle_echo(data)\<close>, which returns its
  argument, and \<^verbatim>\<open>handle_ping()\<close>, which returns \<^verbatim>\<open>"pong"\<close>; then the same instance after
  \<^verbatim>\<open>ensure_channel\<close>.
\<close>

definition ex_ipc :: ipc where
  "ex_ipc = IPC_init ''ipc:1'' (Some ''a'') None
     [(''handle_echo'', OneArg (\<lambda>d. Returns d)), (''handle_ping'', ZeroArg (Returns (JStr ''pong'')))]
     (\<lambda>n. ''00112233445566778899aabbccddeeff'') True"

definition ex_started :: ipc where
  "ex_started = snd (ensure_channel ex_ipc)"

text \<open>
  \<^verbatim>\<open>json.loads\<close> on the payloads of the examples: it agrees with the decoder on the texts
  listed, and stands for a \<^verbatim>\<open>JSONDecodeError\<close> on the truncated text \<^verbatim>\<open>{"op": "ping"\<close>
  used below. \<open>ex_msg\<close> is a data message with the given payload.
\<close>

definition ex_loads :: "string \<Rightarrow> json option" where
  \<open>ex_loads s =
     (if s = ''{"sender": "b", "nonce": "00112233445566778899aabbccddeeff", "data": "pong"}''
      then Some (JObj [(''sender'', JStr ''b''), (''nonce'', JStr ''00112233445566778899aabbccddeeff''), (''data'', JStr ''pong'')])
      else if s = ''{"sender": "c", "nonce": "00112233445566778899aabbccddeeff", "data": "late"}''
      then Some (JObj [(''sender'', JStr ''c''), (''nonce'', JStr ''00112233445566778899aabbccddeeff''), (''data'', JStr ''late'')])
      else if s = ''{"op": "ping", "data": {}, "sender": "b", "nonce": "n2"}''
      then Some (JObj [(''op'', JStr ''ping''), (''data'', JObj []), (''sender'', JStr ''b''),
                       (''nonce'', JStr ''n2'')])
      else if s = ''{"op": "ping", "data": {}, "sender": "b", "required_identity": ""}''
      then Some (JObj [(''op'', JStr ''ping''), (''data'', JObj []), (''sender'', JStr ''b''),
                       (''required_identity'', JStr [])])
      else if s = ''{"op": "ping", "data": {}, "sender": "b", "required_identity": "a"}''
      then Some (JObj [(''op'', JStr ''ping''), (''data'', JObj []), (''sender'', JStr ''b''),
                       (''required_identity'', JStr ''a'')])
      else if s = ''{"op": "ping", "data": {}, "sender": "b", "required_identity": "z"}''
      then Some (JObj [(''op'', JStr ''ping''), (''data'', JObj []), (''sender'', JStr ''b''),
                       (''required_identity'', JStr ''z'')])
      else if s = ''{"op": "nothing", "data": {}, "sender": "b"}''
      then Some (JObj [(''op'', JStr ''nothing''), (''data'', JObj []), (''sender'', JStr ''b'')])
      else if s = ''{"op": "echo", "data": {}, "sender": "b", "nonce": "n2"}''
      then Some (JObj [(''op'', JStr ''echo''), (''data'', JObj []), (''sender'', JStr ''b''),
                       (''nonce'', JStr ''n2'')])
      else if s = ''{"op": "ping", "data": {"x": 1}, "sender": "b", "nonce": "n2"}''
      then Some (JObj [(''op'', JStr ''ping''), (''data'', JObj [(''x'', JNum 1)]),
                       (''sender'', JStr ''b''), (''nonce'', JStr ''n2'')])
      else None)\<close>

definition ex_msg :: "string \<Rightarrow> pubsub_msg" where
  "ex_msg s = \<lparr>mtype = ''message'', mdata = s\<rparr>"


text \<open>
  A router subclass: \<^verbatim>\<open>handle_ping\<close> and \<^verbatim>\<open>handle_status\<close> are its handlers,
  \<^verbatim>\<open>router_load\<close> sets the router's own flag and \<^verbatim>\<open>router_unload\<close> clears it.
\<close>

definition ex_router :: router where
  "ex_router =
     \<lparr>attrs = [(''handle_ping'', ZeroArg (Returns (JStr ''router pong''))),
               (''handle_status'', ZeroArg (Returns (JNum 1))),
               (''router_load'', ZeroArg (Returns JNull)),
               (''router_unload'', ZeroArg (Returns JNull))],
      resource = JBool False,
      router_load = (\<lambda>x. JBool True),
      router_unload = (\<lambda>x. JBool False)\<rparr>"

section \<open>The wording of the specification\<close>

text \<open>
  Three definitions that follow the sentences of the specification and not the code,
  to be compared with \<open>invoke\<close>, with the test of line 176 and with \<open>add_router\<close>.

  The handler is called with \<open>data\<close>, a zero-argument handler with no argument.
\<close>

fun spec_invoke :: "handler \<Rightarrow> json \<Rightarrow> outcome" where
  "spec_invoke (ZeroArg r) d = r"
| "spec_invoke (OneArg f) d = f d"
| "spec_invoke (OptArg f) d = f (Some d)"

text \<open>A result is non-empty when it is not null and not an empty string, list or mapping.\<close>

definition spec_nonempty :: "json \<Rightarrow> bool" where
  "spec_nonempty v = (v \<noteq> JNull \<and> v \<noteq> JStr [] \<and> v \<noteq> JList [] \<and> v \<noteq> JObj [])"

text \<open>Attaching copies the router's handlers into the registry, then invokes its load hook.\<close>

definition spec_attach :: "ipc \<Rightarrow> router \<Rightarrow> ipc" where
  "spec_attach st r =
     st\<lparr>handlers := copy_handlers (attrs r) (handlers st),
        routers := routers st @ [r\<lparr>resource := router_load r (resource r)\<rparr>]\<rparr>"

section \<open>Facts about the example instances\<close>

lemma ex_handlers:
  "handlers ex_ipc = [''echo'' \<mapsto> OneArg (\<lambda>d. Returns d), ''ping'' \<mapsto> ZeroArg (Returns (JStr ''pong''))]"
  by (simp add: ex_ipc_def IPC_init_def)

lemma ex_started_channel: "channel ex_started = Some [''ipc:1'']"
  by (simp add: ex_started_def ex_ipc_def IPC_init_def ensure_channel_def)

section \<open>Calling before the loop has started\<close>

text \<open>
  C3. A \<^verbatim>\<open>get\<close> made while \<open>channel\<close> is still unset raises the \<^verbatim>\<open>RuntimeError\<close> of line 158
  (the not-started error) and leaves the whole state as it was: no token is drawn, no slot
  is registered and nothing is published.
\<close>

theorem get_before_start:
  "channel st = None \<Longrightarrow> get st op required_identity data others intr = (Inl RuntimeError, st)"
  by (simp add: get_def)

theorem get_before_start_witness:
  "channel ex_ipc = None \<and> get ex_ipc ''ping'' None [] (\<lambda>s. s) TimerFired = (Inl RuntimeError, ex_ipc)"
proof -
  have c: "channel ex_ipc = None"
    by (simp add: ex_ipc_def IPC_init_def)
  show ?thesis
    using c get_before_start [OF c, of "''ping''" None "[]" "\<lambda>s. s" TimerFired] by simp
qed

section \<open>Cleanup of the pending slot\<close>

lemma finally_del_absent: "nonces (snd (finally_del s n r)) n = None"
  by (simp add: finally_del_def split: option.splits)

lemma get_started_form:
  assumes "channel st \<noteq> None"
  shows "\<exists>s r. get st op required_identity data others intr = finally_del s (fst (random_hex st)) r"
proof -
  from assms have "(channel st = None) = False"
    by simp
  then show ?thesis
    unfolding get_def Let_def case_prod_beta by (simp only: if_False) blast
qed

text \<open>
  C4. Once \<^verbatim>\<open>get\<close> has passed the check of line 157, the token it draws is not a key of
  \<open>nonces\<close> when it ends, whatever the other tasks did meanwhile, whether the publish
  raised or not, and whether the wait ended with a value, the timer or a cancellation.
\<close>

theorem get_removes_slot:
  assumes "channel st \<noteq> None"
  shows "nonces (snd (get st op required_identity data others intr)) (fst (random_hex st)) = None"
proof -
  obtain s r where
    "get st op required_identity data others intr = finally_del s (fst (random_hex st)) r"
    using get_started_form [OF assms] by blast
  then show ?thesis
    by (simp add: finally_del_absent)
qed

theorem get_removes_slot_witness:
  "channel ex_started \<noteq> None
   \<and> fst (random_hex ex_started) = ''00112233445566778899aabbccddeeff''
   \<and> fst (get ex_started ''nobody'' None [] (\<lambda>s. s) TimerFired) = Inl TimeoutError
   \<and> nonces (snd (get ex_started ''nobody'' None [] (\<lambda>s. s) TimerFired))
        ''00112233445566778899aabbccddeeff'' = None"
proof -
  have c: "channel ex_started \<noteq> None"
    by (simp add: ex_started_channel)
  have t: "fst (random_hex ex_started) = ''00112233445566778899aabbccddeeff''"
    by (simp add: random_hex_def ex_started_def ex_ipc_def IPC_init_def ensure_channel_def)
  have o: "fst (get ex_started ''nobody'' None [] (\<lambda>s. s) TimerFired) = Inl TimeoutError"
    by (simp add: get_def random_hex_def create_future_def publish_def redis_publish_def
        wait_for_def finally_del_def ex_started_def ex_ipc_def IPC_init_def ensure_channel_def)
  show ?thesis
    using c t o get_removes_slot [OF c, of "''nobody''" None "[]" "\<lambda>s. s" TimerFired] by simp
qed

section \<open>Removing a handler\<close>

text \<open>
  C9. \<^verbatim>\<open>remove_handler\<close> with a registered name ends without an exception and removes that
  entry and nothing else; with a name that is not registered it raises \<^verbatim>\<open>KeyError\<close> and
  changes nothing.
\<close>

theorem remove_handler_registered_or_absent:
  "(handlers st name \<noteq> None \<longrightarrow>
      fst (remove_handler st name) = None
      \<and> handlers (snd (remove_handler st name)) = (handlers st)(name := None)
      \<and> snd (remove_handler st name) = st\<lparr>handlers := handlers (snd (remove_handler st name))\<rparr>)
   \<and> (handlers st name = None \<longrightarrow> remove_handler st name = (Some (KeyError name), st))"
  by (auto simp add: remove_handler_def)

theorem remove_handler_registered_or_absent_witness:
  "handlers ex_ipc ''ping'' \<noteq> None
   \<and> fst (remove_handler ex_ipc ''ping'') = None
   \<and> handlers (snd (remove_handler ex_ipc ''ping'')) ''ping'' = None
   \<and> handlers (snd (remove_handler ex_ipc ''ping'')) ''echo'' = handlers ex_ipc ''echo''
   \<and> handlers ex_ipc ''pong'' = None
   \<and> remove_handler ex_ipc ''pong'' = (Some (KeyError ''pong''), ex_ipc)"
proof -
  have a: "handlers ex_ipc ''ping'' \<noteq> None" and b: "handlers ex_ipc ''pong'' = None"
    by (simp_all add: ex_handlers)
  show ?thesis
    using a b remove_handler_registered_or_absent [of ex_ipc "''ping''"]
      remove_handler_registered_or_absent [of ex_ipc "''pong''"]
    by simp
qed

section \<open>The reply branch\<close>

lemma on_message_dict:
  assumes "mtype msg = ''message''" and "loads (mdata msg) = Some (JObj env)"
  shows "on_message loads st msg =
     (if dict_get env ''op'' = JNull \<and> dict_get env ''sender'' \<noteq> JStr (identity st)
          \<and> dict_get env ''nonce'' \<noteq> JNull
      then (case lookup_key (nonces st) (dict_get env ''nonce'') of
              Inl e \<Rightarrow> (Some e, st)
            | Inr (Some fut) \<Rightarrow> (None, resolve_reply st fut (dict_get env ''data''))
            | Inr None \<Rightarrow> dispatch_request st (dict_get env ''op'') (dict_get env ''nonce'')
                            (dict_get env ''data'') (dict_get env ''required_identity''))
      else dispatch_request st (dict_get env ''op'') (dict_get env ''nonce'')
             (dict_get env ''data'') (dict_get env ''required_identity''))"
  using assms by (simp add: on_message_def Let_def)










lemma ex_started_fields:
  "identity ex_started = ''a''"
  "nonces ex_started = Map.empty"
  "tasks ex_started = []"
  "sent ex_started = []"
  "redis_up ex_started"
  "channel_address ex_started = ''ipc:1''"
  "error_handler ex_started = None"
  "handlers ex_started = handlers ex_ipc"
  by (simp_all add: ex_started_def ex_ipc_def IPC_init_def ensure_channel_def)


section \<open>The request branch\<close>

lemma dispatch_request_str:
  "dispatch_request st (JStr name) nonce data ri =
     (case handlers st name of
        None \<Rightarrow> (None, st)
      | Some h \<Rightarrow>
          if truthy ri \<and> JStr (identity st) \<noteq> ri then (None, st)
          else (None, st\<lparr>tasks := tasks st @
                  [\<lparr>t_handler = h, t_nonce = nonce, t_message = data,
                    t_name = ''redis-ipc: '' @ name\<rparr>]\<rparr>))"
  by (cases "handlers st name") (simp_all add: dispatch_request_def)

lemma on_message_request:
  assumes "mtype msg = ''message''" and "loads (mdata msg) = Some (JObj env)"
    and "dict_get env ''op'' = JStr name"
  shows "on_message loads st msg =
           dispatch_request st (JStr name) (dict_get env ''nonce'') (dict_get env ''data'')
             (dict_get env ''required_identity'')"
  using assms on_message_dict [of msg loads env st] by simp

text \<open>
  C7, as the code has it. A request whose \<open>op\<close> has no handler is dropped. With a handler,
  the request is dropped when \<open>required_identity\<close> is true in Python's sense (present and
  not empty) and differs from the identity of the instance; it is handed to a new task
  when \<open>required_identity\<close> equals the identity or is absent or empty.
\<close>

theorem request_dropped_or_handled:
  assumes "mtype msg = ''message''" and "loads (mdata msg) = Some (JObj env)"
    and "dict_get env ''op'' = JStr name"
  shows "(handlers st name = None \<longrightarrow> on_message loads st msg = (None, st))
       \<and> (handlers st name \<noteq> None \<and> truthy (dict_get env ''required_identity'')
            \<and> dict_get env ''required_identity'' \<noteq> JStr (identity st)
          \<longrightarrow> on_message loads st msg = (None, st))
       \<and> (\<forall>h. handlers st name = Some h
            \<and> (dict_get env ''required_identity'' = JStr (identity st)
                \<or> \<not> truthy (dict_get env ''required_identity''))
          \<longrightarrow> on_message loads st msg =
                (None, st\<lparr>tasks := tasks st @
                   [\<lparr>t_handler = h, t_nonce = dict_get env ''nonce'',
                     t_message = dict_get env ''data'', t_name = ''redis-ipc: '' @ name\<rparr>]\<rparr>))"
  unfolding on_message_request [of msg loads env name st, OF assms] dispatch_request_str
  by (auto split: option.splits)

theorem request_dropped_or_handled_witness:
  \<open>on_message ex_loads ex_started (ex_msg ''{"op": "nothing", "data": {}, "sender": "b"}'')
     = (None, ex_started)
   \<and> on_message ex_loads ex_started
        (ex_msg ''{"op": "ping", "data": {}, "sender": "b", "required_identity": "z"}'')
     = (None, ex_started)
   \<and> on_message ex_loads ex_started
        (ex_msg ''{"op": "ping", "data": {}, "sender": "b", "required_identity": "a"}'')
     = (None, ex_started\<lparr>tasks :=
          [\<lparr>t_handler = ZeroArg (Returns (JStr ''pong'')), t_nonce = JNull, t_message = JObj [],
            t_name = ''redis-ipc: ping''\<rparr>]\<rparr>)\<close>
proof -
  let ?m0 = \<open>ex_msg ''{"op": "nothing", "data": {}, "sender": "b"}''\<close>
  let ?mz = \<open>ex_msg ''{"op": "ping", "data": {}, "sender": "b", "required_identity": "z"}''\<close>
  let ?ma = \<open>ex_msg ''{"op": "ping", "data": {}, "sender": "b", "required_identity": "a"}''\<close>
  let ?e0 = "[(''op'', JStr ''nothing''), (''data'', JObj []), (''sender'', JStr ''b'')]"
  let ?ez = "[(''op'', JStr ''ping''), (''data'', JObj []), (''sender'', JStr ''b''),
              (''required_identity'', JStr ''z'')]"
  let ?ea = "[(''op'', JStr ''ping''), (''data'', JObj []), (''sender'', JStr ''b''),
              (''required_identity'', JStr ''a'')]"
  have t: "mtype ?m0 = ''message''" "mtype ?mz = ''message''" "mtype ?ma = ''message''"
    by (simp_all add: ex_msg_def)
  have l: "ex_loads (mdata ?m0) = Some (JObj ?e0)" "ex_loads (mdata ?mz) = Some (JObj ?ez)"
    "ex_loads (mdata ?ma) = Some (JObj ?ea)"
    by (simp_all add: ex_msg_def ex_loads_def)
  have o: "dict_get ?e0 ''op'' = JStr ''nothing''" "dict_get ?ez ''op'' = JStr ''ping''"
    "dict_get ?ea ''op'' = JStr ''ping''"
    by (simp_all add: dict_get_def)
  have g: "dict_get ?ez ''required_identity'' = JStr ''z''"
    "dict_get ?ea ''required_identity'' = JStr ''a''"
    "dict_get ?ea ''nonce'' = JNull" "dict_get ?ea ''data'' = JObj []"
    by (simp_all add: dict_get_def)
  have h: "handlers ex_started ''nothing'' = None"
    "handlers ex_started ''ping'' = Some (ZeroArg (Returns (JStr ''pong'')))"
    by (simp_all add: ex_started_fields ex_handlers)
  have a: "on_message ex_loads ex_started ?m0 = (None, ex_started)"
    using request_dropped_or_handled [of ?m0 ex_loads ?e0 "''nothing''" ex_started] t l o h
    by blast
  have b: "on_message ex_loads ex_started ?mz = (None, ex_started)"
    using request_dropped_or_handled [of ?mz ex_loads ?ez "''ping''" ex_started] t l o h
    by (simp add: g ex_started_fields)
  have "on_message ex_loads ex_started ?ma =
          (None, ex_started\<lparr>tasks := tasks ex_started @
             [\<lparr>t_handler = ZeroArg (Returns (JStr ''pong'')), t_nonce = dict_get ?ea ''nonce'',
               t_message = dict_get ?ea ''data'', t_name = ''redis-ipc: '' @ ''ping''\<rparr>]\<rparr>)"
    using request_dropped_or_handled [of ?ma ex_loads ?ea "''ping''" ex_started] t l o h
    by (simp add: g ex_started_fields)
  then have c: "on_message ex_loads ex_started ?ma =
          (None, ex_started\<lparr>tasks :=
             [\<lparr>t_handler = ZeroArg (Returns (JStr ''pong'')), t_nonce = JNull, t_message = JObj [],
               t_name = ''redis-ipc: ping''\<rparr>]\<rparr>)"
    by (simp add: g ex_started_fields)
  from a b c show ?thesis
    by blast
qed

text \<open>
  The claim as it is written fails for an envelope whose \<open>required_identity\<close> is the empty
  string: the field is present and differs from the identity \<open>a\<close>, a handler for \<open>ping\<close>
  is registered, and the request is handed to a task.
\<close>

theorem request_empty_identity_counterexample:
  \<open>map_of [(''op'', JStr ''ping''), (''data'', JObj []), (''sender'', JStr ''b''),
           (''required_identity'', JStr [])] ''required_identity'' = Some (JStr [])
   \<and> ex_loads ''{"op": "ping", "data": {}, "sender": "b", "required_identity": ""}''
      = Some (JObj [(''op'', JStr ''ping''), (''data'', JObj []), (''sender'', JStr ''b''),
                    (''required_identity'', JStr [])])
   \<and> JStr [] \<noteq> JStr (identity ex_started)
   \<and> handlers ex_started ''ping'' = Some (ZeroArg (Returns (JStr ''pong'')))
   \<and> on_message ex_loads ex_started
        (ex_msg ''{"op": "ping", "data": {}, "sender": "b", "required_identity": ""}'')
     = (None, ex_started\<lparr>tasks :=
          [\<lparr>t_handler = ZeroArg (Returns (JStr ''pong'')), t_nonce = JNull, t_message = JObj [],
            t_name = ''redis-ipc: ping''\<rparr>]\<rparr>)\<close>
  by (simp add: on_message_def ex_msg_def ex_loads_def dict_get_def dispatch_request_def
      ex_started_fields ex_handlers)

section \<open>An empty required identity\<close>



section \<open>How the handler is called\<close>

text \<open>
  C5, as the code has it. A request that passes the lookup and the identity filter spawns
  one task that holds the handler and the envelope's \<open>data\<close>. Running it calls the handler
  with \<open>data\<close> as its one argument when \<open>data\<close> is true in Python's sense, and with no
  argument when \<open>data\<close> is null, false, zero or empty; the signature of the handler plays
  no part in the choice. So the task of a handler that takes one argument ends in the
  \<^verbatim>\<open>except\<close> clauses with a \<^verbatim>\<open>TypeError\<close> when \<open>data\<close> is empty, and so does the task of a
  zero-argument handler when \<open>data\<close> is not.
\<close>

theorem handler_called_by_truth_of_data:
  assumes "mtype msg = ''message''" and "loads (mdata msg) = Some (JObj env)"
    and "dict_get env ''op'' = JStr name"
    and "handlers st name = Some h"
    and "\<not> (truthy (dict_get env ''required_identity'')
             \<and> JStr (identity st) \<noteq> dict_get env ''required_identity'')"
  shows "on_message loads st msg =
           (None, st\<lparr>tasks := tasks st @
              [\<lparr>t_handler = h, t_nonce = dict_get env ''nonce'',
                t_message = dict_get env ''data'', t_name = ''redis-ipc: '' @ name\<rparr>]\<rparr>)
         \<and> run_task s \<lparr>t_handler = h, t_nonce = dict_get env ''nonce'',
                       t_message = dict_get env ''data'', t_name = ''redis-ipc: '' @ name\<rparr>
             = run_handler s h (dict_get env ''nonce'') (dict_get env ''data'')
         \<and> invoke h (dict_get env ''data'') =
             (if truthy (dict_get env ''data'') then call1 h (dict_get env ''data'') else call0 h)
         \<and> invoke (OneArg f) (dict_get env ''data'') =
             (if truthy (dict_get env ''data'') then f (dict_get env ''data'') else Raises TypeError)
         \<and> invoke (ZeroArg r) (dict_get env ''data'') =
             (if truthy (dict_get env ''data'') then Raises TypeError else r)
         \<and> run_task s \<lparr>t_handler = h, t_nonce = dict_get env ''nonce'',
                       t_message = dict_get env ''data'', t_name = ''redis-ipc: '' @ name\<rparr>
             = (case (if truthy (dict_get env ''data'') then call1 h (dict_get env ''data'')
                      else call0 h) of
                  Raises e \<Rightarrow> on_exception s e (dict_get env ''data'')
                | Returns resp \<Rightarrow>
                    if truthy resp \<and> truthy (dict_get env ''nonce'') then
                      (case redis_publish s (channel_address s)
                              (JObj [(''nonce'', dict_get env ''nonce''),
                                     (''sender'', JStr (identity s)), (''data'', resp)]) of
                         (Some e, s') \<Rightarrow> on_exception s' e (dict_get env ''data'')
                       | (None, s') \<Rightarrow> (None, s'))
                    else (None, s))
         \<and> (h = OneArg f \<and> \<not> truthy (dict_get env ''data'') \<longrightarrow>
               run_task s \<lparr>t_handler = h, t_nonce = dict_get env ''nonce'',
                          t_message = dict_get env ''data'', t_name = ''redis-ipc: '' @ name\<rparr>
                 = on_exception s TypeError (dict_get env ''data''))
         \<and> (h = ZeroArg r \<and> truthy (dict_get env ''data'') \<longrightarrow>
               run_task s \<lparr>t_handler = h, t_nonce = dict_get env ''nonce'',
                          t_message = dict_get env ''data'', t_name = ''redis-ipc: '' @ name\<rparr>
                 = on_exception s TypeError (dict_get env ''data''))"
proof -
  let ?d = "dict_get env ''data''"
  let ?n = "dict_get env ''nonce''"
  let ?T = "\<lparr>t_handler = h, t_nonce = ?n, t_message = ?d, t_name = ''redis-ipc: '' @ name\<rparr>"
  have spawn: "on_message loads st msg = (None, st\<lparr>tasks := tasks st @ [?T]\<rparr>)"
    using assms on_message_request [of msg loads env name st]
    by (auto simp add: dispatch_request_str)
  have task: "run_task s ?T = run_handler s h ?n ?d"
    by (simp add: run_task_def)
  have inv: "invoke h ?d = (if truthy ?d then call1 h ?d else call0 h)"
    "invoke (OneArg f) ?d = (if truthy ?d then f ?d else Raises TypeError)"
    "invoke (ZeroArg r) ?d = (if truthy ?d then Raises TypeError else r)"
    by (simp_all add: invoke_def)
  have run: "run_task s ?T =
      (case (if truthy ?d then call1 h ?d else call0 h) of
         Raises e \<Rightarrow> on_exception s e ?d
       | Returns resp \<Rightarrow>
           if truthy resp \<and> truthy ?n then
             (case redis_publish s (channel_address s)
                     (JObj [(''nonce'', ?n), (''sender'', JStr (identity s)), (''data'', resp)]) of
                (Some e, s') \<Rightarrow> on_exception s' e ?d
              | (None, s') \<Rightarrow> (None, s'))
           else (None, s))"
    unfolding task run_handler_def invoke_def ..
  have one: "run_task s ?T = on_exception s TypeError ?d" if "h = OneArg f" "\<not> truthy ?d"
    using that by (simp add: run_task_def run_handler_def invoke_def)
  have zero: "run_task s ?T = on_exception s TypeError ?d" if "h = ZeroArg r" "truthy ?d"
    using that by (simp add: run_task_def run_handler_def invoke_def)
  from spawn task inv run one zero show ?thesis
    by blast
qed

theorem handler_called_by_truth_of_data_witness:
  \<open>on_message ex_loads ex_started (ex_msg ''{"op": "ping", "data": {}, "sender": "b", "nonce": "n2"}'')
     = (None, ex_started\<lparr>tasks :=
          [\<lparr>t_handler = ZeroArg (Returns (JStr ''pong'')), t_nonce = JStr ''n2'', t_message = JObj [],
            t_name = ''redis-ipc: ping''\<rparr>]\<rparr>)
   \<and> invoke (ZeroArg (Returns (JStr ''pong''))) (JObj []) = Returns (JStr ''pong'')
   \<and> invoke (OneArg (\<lambda>d. Returns d)) (JObj []) = Raises TypeError
   \<and> run_task ex_started
        \<lparr>t_handler = ZeroArg (Returns (JStr ''pong'')), t_nonce = JStr ''n2'', t_message = JObj [],
          t_name = ''redis-ipc: ping''\<rparr>
     = (None, ex_started\<lparr>sent :=
          [(''ipc:1'', JObj [(''nonce'', JStr ''n2''), (''sender'', JStr ''a''),
                            (''data'', JStr ''pong'')])]\<rparr>)\<close>
proof -
  let ?m = \<open>ex_msg ''{"op": "ping", "data": {}, "sender": "b", "nonce": "n2"}''\<close>
  let ?e = "[(''op'', JStr ''ping''), (''data'', JObj []), (''sender'', JStr ''b''),
             (''nonce'', JStr ''n2'')]"
  have h: "mtype ?m = ''message''" "ex_loads (mdata ?m) = Some (JObj ?e)"
    "dict_get ?e ''op'' = JStr ''ping''"
    "handlers ex_started ''ping'' = Some (ZeroArg (Returns (JStr ''pong'')))"
    "\<not> (truthy (dict_get ?e ''required_identity'')
         \<and> JStr (identity ex_started) \<noteq> dict_get ?e ''required_identity'')"
    by (simp_all add: ex_msg_def ex_loads_def dict_get_def ex_started_fields ex_handlers)
  have g: "dict_get ?e ''nonce'' = JStr ''n2''" "dict_get ?e ''data'' = JObj []"
    by (simp_all add: dict_get_def)
  note T = handler_called_by_truth_of_data [of ?m ex_loads ?e "''ping''" ex_started
      "ZeroArg (Returns (JStr ''pong''))" ex_started "\<lambda>d. Returns d" "Returns (JStr ''pong'')",
      OF h]
  have a: "on_message ex_loads ex_started ?m
     = (None, ex_started\<lparr>tasks :=
          [\<lparr>t_handler = ZeroArg (Returns (JStr ''pong'')), t_nonce = JStr ''n2'', t_message = JObj [],
            t_name = ''redis-ipc: ping''\<rparr>]\<rparr>)"
    using conjunct1 [OF T] by (simp add: g ex_started_fields)
  have b: "invoke (ZeroArg (Returns (JStr ''pong''))) (JObj []) = Returns (JStr ''pong'')"
    and c: "invoke (OneArg (\<lambda>d. Returns d)) (JObj []) = Raises TypeError"
    using T by (simp_all add: g)
  have "run_task ex_started
          \<lparr>t_handler = ZeroArg (Returns (JStr ''pong'')), t_nonce = dict_get ?e ''nonce'',
            t_message = dict_get ?e ''data'', t_name = ''redis-ipc: '' @ ''ping''\<rparr>
        = run_handler ex_started (ZeroArg (Returns (JStr ''pong'')))
            (dict_get ?e ''nonce'') (dict_get ?e ''data'')"
    using T by blast
  then have "run_task ex_started
          \<lparr>t_handler = ZeroArg (Returns (JStr ''pong'')), t_nonce = dict_get ?e ''nonce'',
            t_message = dict_get ?e ''data'', t_name = ''redis-ipc: '' @ ''ping''\<rparr>
        = (None, ex_started\<lparr>sent :=
             [(''ipc:1'', JObj [(''nonce'', JStr ''n2''), (''sender'', JStr ''a''),
                               (''data'', JStr ''pong'')])]\<rparr>)"
    by (simp add: g run_handler_def invoke_def redis_publish_def ex_started_fields)
  then have d: "run_task ex_started
        \<lparr>t_handler = ZeroArg (Returns (JStr ''pong'')), t_nonce = JStr ''n2'', t_message = JObj [],
          t_name = ''redis-ipc: ping''\<rparr>
     = (None, ex_started\<lparr>sent :=
          [(''ipc:1'', JObj [(''nonce'', JStr ''n2''), (''sender'', JStr ''a''),
                            (''data'', JStr ''pong'')])]\<rparr>)"
    by (simp add: g)
  from a b c d show ?thesis
    by blast
qed

text \<open>
  The claim as it is written fails in both directions. A handler that takes \<open>data\<close> is
  called with no argument when \<open>data\<close> is the empty mapping, which is what \<^verbatim>\<open>publish\<close>
  sends when it gets no keyword argument; a zero-argument handler is called with \<open>data\<close>
  when \<open>data\<close> is not empty. In both cases the task spawned for the request ends with
  \<^verbatim>\<open>TypeError\<close>, where the call the claim describes returns.
\<close>

theorem handler_argument_counterexample:
  \<open>on_message ex_loads ex_started (ex_msg ''{"op": "echo", "data": {}, "sender": "b", "nonce": "n2"}'')
     = (None, ex_started\<lparr>tasks :=
          [\<lparr>t_handler = OneArg (\<lambda>d. Returns d), t_nonce = JStr ''n2'', t_message = JObj [],
            t_name = ''redis-ipc: echo''\<rparr>]\<rparr>)
   \<and> run_task ex_started
        \<lparr>t_handler = OneArg (\<lambda>d. Returns d), t_nonce = JStr ''n2'', t_message = JObj [],
          t_name = ''redis-ipc: echo''\<rparr>
     = (Some TypeError, ex_started)
   \<and> spec_invoke (OneArg (\<lambda>d. Returns d)) (JObj []) = Returns (JObj [])
   \<and> on_message ex_loads ex_started
        (ex_msg ''{"op": "ping", "data": {"x": 1}, "sender": "b", "nonce": "n2"}'')
     = (None, ex_started\<lparr>tasks :=
          [\<lparr>t_handler = ZeroArg (Returns (JStr ''pong'')), t_nonce = JStr ''n2'',
            t_message = JObj [(''x'', JNum 1)], t_name = ''redis-ipc: ping''\<rparr>]\<rparr>)
   \<and> run_task ex_started
        \<lparr>t_handler = ZeroArg (Returns (JStr ''pong'')), t_nonce = JStr ''n2'',
          t_message = JObj [(''x'', JNum 1)], t_name = ''redis-ipc: ping''\<rparr>
     = (Some TypeError, ex_started)
   \<and> spec_invoke (ZeroArg (Returns (JStr ''pong''))) (JObj [(''x'', JNum 1)])
     = Returns (JStr ''pong'')\<close>
proof -
  have a: \<open>on_message ex_loads ex_started
             (ex_msg ''{"op": "echo", "data": {}, "sender": "b", "nonce": "n2"}'')
     = (None, ex_started\<lparr>tasks :=
          [\<lparr>t_handler = OneArg (\<lambda>d. Returns d), t_nonce = JStr ''n2'', t_message = JObj [],
            t_name = ''redis-ipc: echo''\<rparr>]\<rparr>)\<close>
    by (simp add: on_message_def ex_msg_def ex_loads_def dict_get_def dispatch_request_def
        ex_started_fields ex_handlers)
  have b: \<open>on_message ex_loads ex_started
        (ex_msg ''{"op": "ping", "data": {"x": 1}, "sender": "b", "nonce": "n2"}'')
     = (None, ex_started\<lparr>tasks :=
          [\<lparr>t_handler = ZeroArg (Returns (JStr ''pong'')), t_nonce = JStr ''n2'',
            t_message = JObj [(''x'', JNum 1)], t_name = ''redis-ipc: ping''\<rparr>]\<rparr>)\<close>
    by (simp add: on_message_def ex_msg_def ex_loads_def dict_get_def dispatch_request_def
        ex_started_fields ex_handlers)
  have c: "run_task ex_started
        \<lparr>t_handler = OneArg (\<lambda>d. Returns d), t_nonce = JStr ''n2'', t_message = JObj [],
          t_name = ''redis-ipc: echo''\<rparr>
     = (Some TypeError, ex_started)"
    and d: "run_task ex_started
        \<lparr>t_handler = ZeroArg (Returns (JStr ''pong'')), t_nonce = JStr ''n2'',
          t_message = JObj [(''x'', JNum 1)], t_name = ''redis-ipc: ping''\<rparr>
     = (Some TypeError, ex_started)"
    by (simp_all add: run_task_def run_handler_def invoke_def on_exception_def ex_started_fields)
  from a b c d show ?thesis
    by simp
qed

section \<open>The reply of a handler\<close>

text \<open>
  C6, as the code has it. When the call of the handler returns \<open>resp\<close> and the connection
  works, a reply envelope with the request's \<open>nonce\<close>, \<open>sender\<close> equal to the identity and
  \<open>data\<close> equal to \<open>resp\<close> is published on the channel exactly when both \<open>resp\<close> and the
  \<open>nonce\<close> are true in Python's sense; otherwise nothing is published. So a result that is
  null, false, zero or empty gets no reply, and neither does a request without a nonce.
\<close>

theorem reply_published_when_truthy:
  assumes "invoke h message = Returns resp" and "redis_up st"
  shows "run_handler st h nonce message =
           (None,
            if truthy resp \<and> truthy nonce
            then st\<lparr>sent := sent st @
                   [(channel_address st,
                     JObj [(''nonce'', nonce), (''sender'', JStr (identity st)), (''data'', resp)])]\<rparr>
            else st)"
  using assms by (simp add: run_handler_def redis_publish_def)

theorem reply_published_when_truthy_witness:
  "invoke (ZeroArg (Returns (JStr ''pong''))) (JObj []) = Returns (JStr ''pong'')
   \<and> redis_up ex_started
   \<and> run_handler ex_started (ZeroArg (Returns (JStr ''pong''))) (JStr ''n2'') (JObj [])
     = (None, ex_started\<lparr>sent :=
          [(''ipc:1'', JObj [(''nonce'', JStr ''n2''), (''sender'', JStr ''a''),
                            (''data'', JStr ''pong'')])]\<rparr>)"
proof -
  have i: "invoke (ZeroArg (Returns (JStr ''pong''))) (JObj []) = Returns (JStr ''pong'')"
    by (simp add: invoke_def)
  have u: "redis_up ex_started"
    by (simp add: ex_started_fields)
  show ?thesis
    using i u reply_published_when_truthy [OF i u, of "JStr ''n2''"]
    by (simp add: ex_started_fields)
qed

text \<open>
  The claim as it is written fails for a handler that returns \<^verbatim>\<open>False\<close>, a result that is
  neither null nor empty: nothing is published although the request carries a nonce. It
  also fails for a request without a nonce, whatever the handler returns.
\<close>

theorem reply_not_published_counterexample:
  "spec_nonempty (JBool False)
   \<and> invoke (ZeroArg (Returns (JBool False))) (JObj []) = Returns (JBool False)
   \<and> redis_up ex_started
   \<and> run_handler ex_started (ZeroArg (Returns (JBool False))) (JStr ''n2'') (JObj [])
     = (None, ex_started)
   \<and> spec_nonempty (JStr ''pong'')
   \<and> invoke (ZeroArg (Returns (JStr ''pong''))) (JObj []) = Returns (JStr ''pong'')
   \<and> run_handler ex_started (ZeroArg (Returns (JStr ''pong''))) JNull (JObj [])
     = (None, ex_started)"
  by (simp add: spec_nonempty_def invoke_def run_handler_def ex_started_fields)

section \<open>A payload that does not decode\<close>

lemma listen_loop_append:
  "Cancel \<notin> set pre \<Longrightarrow>
     listen_loop loads st (pre @ evs) =
       (case listen_loop loads st pre of
          (Some e, s) \<Rightarrow> (Some e, s)
        | (None, s) \<Rightarrow> listen_loop loads s evs)"
proof (induction pre arbitrary: st)
  case Nil
  then show ?case by simp
next
  case (Cons ev pre)
  then show ?case
    by (cases ev) (auto split: prod.splits option.splits)
qed

lemma ensure_channel_sets: "channel (snd (ensure_channel st)) \<noteq> None"
  by (simp add: ensure_channel_def split: option.splits)

text \<open>
  C2, as the code has it. \<^verbatim>\<open>json.loads\<close> is called outside any \<^verbatim>\<open>try\<close> that catches its
  exception. When the loop has taken the messages \<open>pre\<close> without an exception and the
  next data message has a payload that does not decode, \<^verbatim>\<open>start\<close> ends with
  \<^verbatim>\<open>JSONDecodeError\<close> in the state reached after \<open>pre\<close>; none of the messages \<open>rest\<close> that
  follow is consumed.
\<close>

theorem decode_failure_ends_loop:
  assumes "ensure_channel st = (None, s0)"
    and "Cancel \<notin> set pre"
    and "listen_loop loads s0 pre = (None, s)"
    and "mtype msg = ''message''"
    and "loads (mdata msg) = None"
  shows "start loads st (pre @ Message msg # rest) = (Some JSONDecodeError, s)"
proof -
  have "channel s0 \<noteq> None"
    using ensure_channel_sets [of st] assms(1) by simp
  then have "start loads st (pre @ Message msg # rest) = listen_loop loads s0 (pre @ Message msg # rest)"
    using assms(1) by (auto simp add: start_def listen_ipc_def)
  also have "\<dots> = listen_loop loads s (Message msg # rest)"
    using assms(2,3) by (simp add: listen_loop_append)
  also have "\<dots> = (Some JSONDecodeError, s)"
    using assms(4,5) by (simp add: on_message_def)
  finally show ?thesis .
qed

lemma ex_ensure_channel: "ensure_channel ex_ipc = (None, ex_started)"
  by (simp add: ex_started_def ensure_channel_def ex_ipc_def IPC_init_def)

lemma ex_ping_request:
  \<open>on_message ex_loads ex_started (ex_msg ''{"op": "ping", "data": {}, "sender": "b", "nonce": "n2"}'')
     = (None, ex_started\<lparr>tasks :=
          [\<lparr>t_handler = ZeroArg (Returns (JStr ''pong'')), t_nonce = JStr ''n2'', t_message = JObj [],
            t_name = ''redis-ipc: ping''\<rparr>]\<rparr>)\<close>
  by (simp add: on_message_def ex_msg_def ex_loads_def dict_get_def dispatch_request_def
      ex_started_fields ex_handlers)

theorem decode_failure_ends_loop_witness:
  \<open>ex_loads ''{"op": "ping"'' = None
   \<and> start ex_loads ex_ipc
        [Message (ex_msg ''{"op": "ping", "data": {}, "sender": "b", "nonce": "n2"}''),
         Message (ex_msg ''{"op": "ping"''),
         Message (ex_msg ''{"op": "ping", "data": {}, "sender": "b", "nonce": "n2"}'')]
     = (Some JSONDecodeError,
        ex_started\<lparr>tasks :=
          [\<lparr>t_handler = ZeroArg (Returns (JStr ''pong'')), t_nonce = JStr ''n2'', t_message = JObj [],
            t_name = ''redis-ipc: ping''\<rparr>]\<rparr>)\<close>
proof -
  let ?ping = \<open>ex_msg ''{"op": "ping", "data": {}, "sender": "b", "nonce": "n2"}''\<close>
  let ?bad = \<open>ex_msg ''{"op": "ping"''\<close>
  let ?s = "ex_started\<lparr>tasks :=
          [\<lparr>t_handler = ZeroArg (Returns (JStr ''pong'')), t_nonce = JStr ''n2'', t_message = JObj [],
            t_name = ''redis-ipc: ping''\<rparr>]\<rparr>"
  have n: \<open>ex_loads ''{"op": "ping"'' = None\<close>
    by (simp add: ex_loads_def)
  have c: "Cancel \<notin> set [Message ?ping]"
    by simp
  have p: "listen_loop ex_loads ex_started [Message ?ping] = (None, ?s)"
    by (simp add: ex_ping_request)
  have t: "mtype ?bad = ''message''"
    by (simp add: ex_msg_def)
  have b: "ex_loads (mdata ?bad) = None"
    by (simp add: ex_msg_def ex_loads_def)
  have "start ex_loads ex_ipc ([Message ?ping] @ Message ?bad # [Message ?ping])
          = (Some JSONDecodeError, ?s)"
    using ex_ensure_channel c p t b by (rule decode_failure_ends_loop)
  then show ?thesis
    using n by simp
qed

text \<open>
  The claim as it is written fails: after a payload that does not decode, the request
  that follows is never consumed. \<^verbatim>\<open>start\<close> raises and no task exists, although the same
  request alone spawns its handler.
\<close>

theorem decode_failure_counterexample:
  \<open>ex_loads ''{"op": "ping"'' = None
   \<and> start ex_loads ex_ipc
        [Message (ex_msg ''{"op": "ping"''),
         Message (ex_msg ''{"op": "ping", "data": {}, "sender": "b", "nonce": "n2"}'')]
     = (Some JSONDecodeError, ex_started)
   \<and> tasks ex_started = []
   \<and> start ex_loads ex_ipc
        [Message (ex_msg ''{"op": "ping", "data": {}, "sender": "b", "nonce": "n2"}'')]
     = (None, ex_started\<lparr>tasks :=
          [\<lparr>t_handler = ZeroArg (Returns (JStr ''pong'')), t_nonce = JStr ''n2'', t_message = JObj [],
            t_name = ''redis-ipc: ping''\<rparr>]\<rparr>)\<close>
proof -
  have n: \<open>ex_loads ''{"op": "ping"'' = None\<close>
    by (simp add: ex_loads_def)
  have b: \<open>on_message ex_loads ex_started (ex_msg ''{"op": "ping"'') = (Some JSONDecodeError, ex_started)\<close>
    by (simp add: on_message_def ex_msg_def n)
  have c: "channel ex_started \<noteq> None"
    by (simp add: ex_started_channel)
  show ?thesis
    using n c by (simp add: start_def listen_ipc_def ex_ensure_channel b ex_ping_request
        ex_started_fields)
qed

section \<open>Attaching a router\<close>

lemma copy_handlers_snoc:
  "copy_handlers (xs @ [(m, f)]) hs =
     (if startswith m ''handle_'' then (copy_handlers xs hs)(replace m ''handle_'' [] \<mapsto> f)
      else copy_handlers xs hs)"
  by (induction xs arbitrary: hs) auto

lemma copy_handlers_last_wins:
  "copy_handlers xs hs k =
     (case find (\<lambda>(m, f). startswith m ''handle_'' \<and> replace m ''handle_'' [] = k) (rev xs) of
        Some (m, f) \<Rightarrow> Some f
      | None \<Rightarrow> hs k)"
proof (induction xs rule: rev_induct)
  case Nil
  then show ?case by simp
next
  case (snoc x xs)
  obtain m f where x: "x = (m, f)"
    by (cases x)
  show ?case
    using snoc by (simp add: x copy_handlers_snoc)
qed

lemma replace_absent:
  "\<not> str_contains s (p # ps) \<Longrightarrow> replace s (p # ps) new = s"
  by (induction s) auto

lemma replace_handle_prefix:
  assumes "startswith m ''handle_''"
  shows "replace m ''handle_'' [] = replace (drop 7 m) ''handle_'' []"
  using assms by (cases m) (simp_all add: eval_nat_numeral)

lemma plain_name:
  assumes "startswith m ''handle_''" and "\<not> str_contains (drop 7 m) ''handle_''"
  shows "replace m ''handle_'' [] = drop 7 m"
  using assms by (simp add: replace_handle_prefix replace_absent)

text \<open>
  C8, as the code has it, for a router in whose handler names \<^verbatim>\<open>handle_\<close> is the prefix
  and occurs nowhere else (\<open>drop 7\<close> takes the seven characters of the prefix away). After
  \<^verbatim>\<open>add_router\<close> the registry holds, under a key \<open>k\<close>, the value of the last attribute of
  the router (in the order of \<^verbatim>\<open>dir\<close>) whose name is \<^verbatim>\<open>handle_\<close> followed by \<open>k\<close>, and the
  previous entry when there is no such attribute; so every handler of the router is
  registered under its operation name. The router is appended to \<open>routers\<close> as it is: no
  hook has run on it. Nothing else in the state changes.
\<close>

theorem add_router_copies_handlers:
  assumes "\<forall>(m, f) \<in> set (attrs r). startswith m ''handle_'' \<longrightarrow> \<not> str_contains (drop 7 m) ''handle_''"
  shows "handlers (add_router st r) k =
     (case find (\<lambda>(m, f). startswith m ''handle_'' \<and> drop 7 m = k) (rev (attrs r)) of
        Some (m, f) \<Rightarrow> Some f
      | None \<Rightarrow> handlers st k)
   \<and> (\<forall>(m, f) \<in> set (attrs r).
        startswith m ''handle_'' \<longrightarrow> handlers (add_router st r) (drop 7 m) \<noteq> None)
   \<and> routers (add_router st r) = routers st @ [r]
   \<and> add_router st r = st\<lparr>routers := routers st @ [r], handlers := handlers (add_router st r)\<rparr>"
proof -
  let ?P = "\<lambda>k. \<lambda>(m, f). startswith m ''handle_'' \<and> replace m ''handle_'' [] = k"
  let ?Q = "\<lambda>k. \<lambda>(m, f :: handler). startswith m ''handle_'' \<and> drop 7 m = k"
  have h: "handlers (add_router st r) = copy_handlers (attrs r) (handlers st)"
    by (simp add: add_router_def)
  have pq: "?P k x = ?Q k x" if "x \<in> set (rev (attrs r))" for k x
  proof -
    obtain m f where x: "x = (m, f)"
      by (cases x)
    show ?thesis
      using that assms plain_name [of m] by (auto simp add: x)
  qed
  have fnd: "find (?P k) (rev (attrs r)) = find (?Q k) (rev (attrs r))" for k
    using pq by (intro find_cong) auto
  have a: "handlers (add_router st r) k =
     (case find (?Q k) (rev (attrs r)) of Some (m, f) \<Rightarrow> Some f | None \<Rightarrow> handlers st k)" for k
    by (simp add: h copy_handlers_last_wins fnd)
  have b: "handlers (add_router st r) (drop 7 m) \<noteq> None"
    if "(m, f) \<in> set (attrs r)" "startswith m ''handle_''" for m f
  proof -
    have "?Q (drop 7 m) (m, f)"
      using that by simp
    then have "find (?Q (drop 7 m)) (rev (attrs r)) \<noteq> None"
      using that(1) by (auto simp add: find_None_iff)
    then show ?thesis
      by (auto simp add: a [of "drop 7 m"])
  qed
  have c: "routers (add_router st r) = routers st @ [r]"
    by (simp add: add_router_def)
  have d: "add_router st r = st\<lparr>routers := routers st @ [r], handlers := handlers (add_router st r)\<rparr>"
    by (simp add: add_router_def)
  from a [of k] b c d show ?thesis
    by blast
qed

theorem add_router_copies_handlers_witness:
  "handlers (add_router ex_ipc ex_router) ''ping'' = Some (ZeroArg (Returns (JStr ''router pong'')))
   \<and> handlers (add_router ex_ipc ex_router) ''status'' = Some (ZeroArg (Returns (JNum 1)))
   \<and> handlers (add_router ex_ipc ex_router) ''echo'' = handlers ex_ipc ''echo''
   \<and> handlers (add_router ex_ipc ex_router) ''router_load'' = None
   \<and> routers (add_router ex_ipc ex_router) = [ex_router]"
proof -
  have r: "routers ex_ipc = []"
    by (simp add: ex_ipc_def IPC_init_def)
  have e: "handlers ex_ipc ''router_load'' = None"
    by (simp add: ex_handlers)
  have f: "rev (attrs ex_router) =
             [(''router_unload'', ZeroArg (Returns JNull)),
              (''router_load'', ZeroArg (Returns JNull)),
              (''handle_status'', ZeroArg (Returns (JNum 1))),
              (''handle_ping'', ZeroArg (Returns (JStr ''router pong'')))]"
    by (simp add: ex_router_def)
  have p: "\<forall>(m, f) \<in> set (attrs ex_router).
             startswith m ''handle_'' \<longrightarrow> \<not> str_contains (drop 7 m) ''handle_''"
    by (simp add: ex_router_def)
  show ?thesis
    using add_router_copies_handlers [OF p, of ex_ipc "''ping''"]
      add_router_copies_handlers [OF p, of ex_ipc "''status''"]
      add_router_copies_handlers [OF p, of ex_ipc "''echo''"]
      add_router_copies_handlers [OF p, of ex_ipc "''router_load''"]
    by (simp add: r e f)
qed

text \<open>
  The claim as it is written fails: the load hook of the example router sets the router's
  flag, and after \<^verbatim>\<open>add_router\<close> the flag of the stored router is still clear, where
  attaching as the specification words it leaves it set.
\<close>

theorem add_router_load_hook_counterexample:
  "router_load ex_router (resource ex_router) = JBool True
   \<and> map resource (routers (add_router ex_ipc ex_router)) = [JBool False]
   \<and> map resource (routers (spec_attach ex_ipc ex_router)) = [JBool True]"
  by (simp add: add_router_def spec_attach_def ex_router_def ex_ipc_def IPC_init_def)

end
